theory Spec2Isabelle
  imports Main
begin

section \<open>Values, dtypes and exceptions\<close>

text \<open>
  The ingestion script \<^verbatim>\<open>ingest_csv_to_sqlite.py\<close> works on pandas data frames and a
  SQLite connection. A cell of a frame is one of the scalars pandas yields when a column
  or a row is iterated. Three of them are absent values (\<^verbatim>\<open>pd.isna\<close> is true):
  the float NaN, Python's \<^verbatim>\<open>None\<close> and the datetime NaT. A finite float is held by
  its \<^verbatim>\<open>repr\<close> (canonical and round-tripping in Python); the script never computes
  with a value, it only inspects and forwards it. A timestamp is held by its canonical
  string form \<^verbatim>\<open>YYYY-MM-DD HH:MM:SS\<close>.
\<close>

datatype cell =
    NaN
  | PyNone
  | NaT
  | IntV int
  | FloatV string
  | BoolV bool
  | StrV string
  | TimestampV string

fun isna :: "cell \<Rightarrow> bool" where
  "isna NaN = True"
| "isna PyNone = True"
| "isna NaT = True"
| "isna _ = False"

definition dropna :: "cell list \<Rightarrow> cell list" where
  "dropna sample_values = filter (\<lambda>v. \<not> isna v) sample_values"

text \<open>The dtypes of pandas, and the predicates of \<^verbatim>\<open>pd.api.types\<close> the script asks.\<close>

datatype dtype =
    Int64 | UInt64 | Float64 | Bool | Datetime64 | Object
  | Category | StringDtype | Timedelta64 | Complex128

fun is_integer_dtype :: "dtype \<Rightarrow> bool" where
  "is_integer_dtype Int64 = True"
| "is_integer_dtype UInt64 = True"
| "is_integer_dtype _ = False"

fun is_float_dtype :: "dtype \<Rightarrow> bool" where
  "is_float_dtype Float64 = True"
| "is_float_dtype _ = False"

fun is_datetime64_any_dtype :: "dtype \<Rightarrow> bool" where
  "is_datetime64_any_dtype Datetime64 = True"
| "is_datetime64_any_dtype _ = False"

fun is_bool_dtype :: "dtype \<Rightarrow> bool" where
  "is_bool_dtype Bool = True"
| "is_bool_dtype _ = False"

fun is_object_dtype :: "dtype \<Rightarrow> bool" where
  "is_object_dtype Object = True"
| "is_object_dtype _ = False"

text \<open>
  Exceptions are values: a class and the message. \<^verbatim>\<open>Sqlite3Error\<close> stands for
  \<^verbatim>\<open>sqlite3.Error\<close> and its subclasses, \<^verbatim>\<open>PyException\<close> for a plain
  \<^verbatim>\<open>Exception\<close>.
\<close>

datatype exn_class =
    FileNotFoundError | EmptyDataError | ParserError | ValueError | TypeError
  | IndexError | KeyError | AttributeError | OverflowError | Sqlite3Error | PyException

datatype exn = Exn (exn_cls: exn_class) (exn_msg: string)

section \<open>Library calls on scalars\<close>

definition is_digit :: "char \<Rightarrow> bool" where
  "is_digit c = (c \<in> set ''0123456789'')"

definition is_nonzero_digit :: "char \<Rightarrow> bool" where
  "is_nonzero_digit c = (c \<in> set ''123456789'')"

definition digit_val :: "char \<Rightarrow> nat" where
  "digit_val c = of_char c - 48"

definition is_space :: "char \<Rightarrow> bool" where
  "is_space c = (c \<in> set [CHR '' '', CHR 0x09, CHR 0x0A, CHR 0x0B, CHR 0x0C, CHR 0x0D])"

definition strip :: "string \<Rightarrow> string" where
  "strip s = rev (dropWhile is_space (rev (dropWhile is_space s)))"

definition drop_sign :: "string \<Rightarrow> string" where
  "drop_sign s = (case s of c # r \<Rightarrow> if c = CHR ''+'' \<or> c = CHR ''-'' then r else s | [] \<Rightarrow> [])"

definition lower :: "string \<Rightarrow> string" where
  "lower s = map (\<lambda>c. if of_char c \<ge> (65::nat) \<and> of_char c \<le> (90::nat)
                        then char_of (of_char c + (32::nat)) else c) s"

text \<open>
  \<^verbatim>\<open>pd.to_numeric\<close> on a string: a decimal literal (sign, digits, fraction,
  exponent, surrounding blanks), one of the named floats, or the empty string (which
  pandas converts to NaN).
\<close>

definition exponent_ok :: "string \<Rightarrow> bool" where
  "exponent_ok r =
     (case r of
        [] \<Rightarrow> True
      | c # e \<Rightarrow> (c = CHR ''e'' \<or> c = CHR ''E'')
                 \<and> drop_sign e \<noteq> [] \<and> list_all is_digit (drop_sign e))"

definition decimal_literal :: "string \<Rightarrow> bool" where
  "decimal_literal s =
     (let u = drop_sign s;
          ip = takeWhile is_digit u;
          r1 = dropWhile is_digit u
      in case r1 of
           c # r \<Rightarrow>
             if c = CHR ''.''
             then (ip \<noteq> [] \<or> takeWhile is_digit r \<noteq> []) \<and> exponent_ok (dropWhile is_digit r)
             else ip \<noteq> [] \<and> exponent_ok r1
         | [] \<Rightarrow> ip \<noteq> [])"

definition numeric_string :: "string \<Rightarrow> bool" where
  "numeric_string s =
     (s = [] \<or> decimal_literal (strip s)
      \<or> lower (drop_sign s) \<in> set [''inf'', ''infinity'', ''nan''])"


fun to_numeric :: "cell \<Rightarrow> exn + unit" where
  "to_numeric (StrV s) =
     (if numeric_string s then Inr ()
      else Inl (Exn ValueError (''Unable to parse string '' @ s)))"
| "to_numeric (TimestampV s) = Inl (Exn TypeError ''Invalid object type'')"
| "to_numeric _ = Inr ()"

text \<open>Decimal rendering of an integer, for \<^verbatim>\<open>str\<close>.\<close>

fun show_nat :: "nat \<Rightarrow> string" where
  "show_nat n =
     (if n < 10 then [char_of (48 + n)]
      else show_nat (n div 10) @ [char_of (48 + n mod 10)])"

definition show_int :: "int \<Rightarrow> string" where
  "show_int i = (if i < 0 then CHR ''-'' # show_nat (nat (- i)) else show_nat (nat i))"

fun py_str :: "cell \<Rightarrow> string" where
  "py_str NaN = ''nan''"
| "py_str PyNone = ''None''"
| "py_str NaT = ''NaT''"
| "py_str (IntV i) = show_int i"
| "py_str (FloatV r) = r"
| "py_str (BoolV b) = (if b then ''True'' else ''False'')"
| "py_str (StrV s) = s"
| "py_str (TimestampV s) = s"

text \<open>
  \<^verbatim>\<open>datetime.strptime\<close> for the two formats the script uses. The format is turned
  into a regular expression by the library; a field of one or two digits takes two digits
  when they form a legal value and one otherwise, and the whole string must be consumed.
  Every failure is a \<^verbatim>\<open>ValueError\<close>.
\<close>

type_synonym datetime = "nat \<times> nat \<times> nat \<times> nat \<times> nat \<times> nat"

fun field2 :: "(char \<Rightarrow> char \<Rightarrow> bool) \<Rightarrow> (char \<Rightarrow> bool) \<Rightarrow> string \<Rightarrow> (nat \<times> string) option" where
  "field2 p2 p1 (a # b # r) =
     (if p2 a b then Some (10 * digit_val a + digit_val b, r)
      else if p1 a then Some (digit_val a, b # r) else None)"
| "field2 p2 p1 [a] = (if p1 a then Some (digit_val a, []) else None)"
| "field2 p2 p1 [] = None"

definition month_field :: "string \<Rightarrow> (nat \<times> string) option" where
  "month_field = field2
     (\<lambda>a b. (a = CHR ''1'' \<and> b \<in> set ''012'') \<or> (a = CHR ''0'' \<and> is_nonzero_digit b))
     is_nonzero_digit"

definition day_field :: "string \<Rightarrow> (nat \<times> string) option" where
  "day_field s =
     (case field2
        (\<lambda>a b. (a = CHR ''3'' \<and> b \<in> set ''01'') \<or> (a \<in> set ''12'' \<and> is_digit b)
               \<or> (a = CHR ''0'' \<and> is_nonzero_digit b))
        is_nonzero_digit s of
        Some v \<Rightarrow> Some v
      | None \<Rightarrow>
          (case s of
             a # b # r \<Rightarrow> if a = CHR '' '' \<and> is_nonzero_digit b then Some (digit_val b, r) else None
           | _ \<Rightarrow> None))"

definition hour_field :: "string \<Rightarrow> (nat \<times> string) option" where
  "hour_field = field2
     (\<lambda>a b. (a = CHR ''2'' \<and> b \<in> set ''0123'') \<or> (a \<in> set ''01'' \<and> is_digit b))
     is_digit"

definition minute_field :: "string \<Rightarrow> (nat \<times> string) option" where
  "minute_field = field2 (\<lambda>a b. a \<in> set ''012345'' \<and> is_digit b) is_digit"

definition second_field :: "string \<Rightarrow> (nat \<times> string) option" where
  "second_field = field2
     (\<lambda>a b. (a = CHR ''6'' \<and> b \<in> set ''01'') \<or> (a \<in> set ''012345'' \<and> is_digit b))
     is_digit"

definition year_field :: "string \<Rightarrow> (nat \<times> string) option" where
  "year_field s =
     (case s of
        a # b # c # d # r \<Rightarrow>
          if is_digit a \<and> is_digit b \<and> is_digit c \<and> is_digit d
          then Some (1000 * digit_val a + 100 * digit_val b + 10 * digit_val c + digit_val d, r)
          else None
      | _ \<Rightarrow> None)"

definition literal :: "char \<Rightarrow> string \<Rightarrow> string option" where
  "literal c s = (case s of a # r \<Rightarrow> if a = c then Some r else None | [] \<Rightarrow> None)"

definition blanks :: "string \<Rightarrow> string option" where
  "blanks s = (case s of a # r \<Rightarrow> if is_space a then Some (dropWhile is_space r) else None
                       | [] \<Rightarrow> None)"

definition is_leap :: "nat \<Rightarrow> bool" where
  "is_leap y = (y mod 4 = 0 \<and> (y mod 100 \<noteq> 0 \<or> y mod 400 = 0))"

definition days_in_month :: "nat \<Rightarrow> nat \<Rightarrow> nat" where
  "days_in_month y m =
     (if m = 2 then (if is_leap y then 29 else 28)
      else if m \<in> {4, 6, 9, 11} then 30 else 31)"

definition valid_datetime :: "datetime \<Rightarrow> bool" where
  "valid_datetime t =
     (case t of (y, m, d, H, M, S) \<Rightarrow>
        1 \<le> y \<and> 1 \<le> m \<and> m \<le> 12 \<and> 1 \<le> d \<and> d \<le> days_in_month y m
        \<and> H \<le> 23 \<and> M \<le> 59 \<and> S \<le> 59)"

definition parse_Y_m_d :: "string \<Rightarrow> ((nat \<times> nat \<times> nat) \<times> string) option" where
  "parse_Y_m_d s =
     (case year_field s of None \<Rightarrow> None | Some (y, s1) \<Rightarrow>
     (case literal CHR ''-'' s1 of None \<Rightarrow> None | Some s2 \<Rightarrow>
     (case month_field s2 of None \<Rightarrow> None | Some (m, s3) \<Rightarrow>
     (case literal CHR ''-'' s3 of None \<Rightarrow> None | Some s4 \<Rightarrow>
     (case day_field s4 of None \<Rightarrow> None | Some (d, s5) \<Rightarrow> Some ((y, m, d), s5))))))"

definition parse_H_M_S :: "string \<Rightarrow> ((nat \<times> nat \<times> nat) \<times> string) option" where
  "parse_H_M_S s =
     (case hour_field s of None \<Rightarrow> None | Some (H, s1) \<Rightarrow>
     (case literal CHR '':'' s1 of None \<Rightarrow> None | Some s2 \<Rightarrow>
     (case minute_field s2 of None \<Rightarrow> None | Some (M, s3) \<Rightarrow>
     (case literal CHR '':'' s3 of None \<Rightarrow> None | Some s4 \<Rightarrow>
     (case second_field s4 of None \<Rightarrow> None | Some (S, s5) \<Rightarrow> Some ((H, M, S), s5))))))"

definition no_match :: "string \<Rightarrow> exn" where
  "no_match s = Exn ValueError (''time data '' @ s @ '' does not match format'')"

definition strptime_Y_m_d :: "string \<Rightarrow> exn + datetime" where
  "strptime_Y_m_d s =
     (case parse_Y_m_d s of
        Some ((y, m, d), []) \<Rightarrow>
          if valid_datetime (y, m, d, 0, 0, 0) then Inr (y, m, d, 0, 0, 0) else Inl (no_match s)
      | _ \<Rightarrow> Inl (no_match s))"

definition strptime_Y_m_d_H_M_S :: "string \<Rightarrow> exn + datetime" where
  "strptime_Y_m_d_H_M_S s =
     (case parse_Y_m_d s of None \<Rightarrow> Inl (no_match s) | Some ((y, m, d), s1) \<Rightarrow>
     (case blanks s1 of None \<Rightarrow> Inl (no_match s) | Some s2 \<Rightarrow>
     (case parse_H_M_S s2 of
        Some ((H, M, S), []) \<Rightarrow>
          if valid_datetime (y, m, d, H, M, S) then Inr (y, m, d, H, M, S) else Inl (no_match s)
      | _ \<Rightarrow> Inl (no_match s))))"

section \<open>Type inference\<close>

text \<open>
  \<^verbatim>\<open>CSVToSQLiteIngester.detect_sqlite_type\<close>. The \<^verbatim>\<open>try\<close> blocks are written
  out: an exception of a class the handler names is caught, any other one would leave the
  function.
\<close>

definition first_sample :: "cell list \<Rightarrow> cell" where
  "first_sample sample_values =
     (case dropna sample_values of [] \<Rightarrow> StrV ''0'' | v # _ \<Rightarrow> v)"

definition date_string_type :: "cell list \<Rightarrow> exn + string" where
  "date_string_type sample_values =
     (case dropna sample_values of
        [] \<Rightarrow> Inr ''TEXT''
      | v # _ \<Rightarrow>
          (let sample = py_str v in
           case strptime_Y_m_d sample of
             Inr _ \<Rightarrow> Inr ''TEXT''
           | Inl e \<Rightarrow>
               if exn_cls e = ValueError then
                 (case strptime_Y_m_d_H_M_S sample of
                    Inr _ \<Rightarrow> Inr ''TEXT''
                  | Inl e' \<Rightarrow>
                      if exn_cls e' = ValueError \<or> exn_cls e' = TypeError
                      then Inr ''TEXT'' else Inl e')
               else Inl e))"

definition detect_sqlite_type :: "dtype \<Rightarrow> cell list \<Rightarrow> exn + string" where
  "detect_sqlite_type dtype sample_values =
     (if is_integer_dtype dtype then Inr ''INTEGER''
      else if is_float_dtype dtype then Inr ''REAL''
      else if is_datetime64_any_dtype dtype then Inr ''TEXT''
      else if is_bool_dtype dtype then Inr ''INTEGER''
      else if is_object_dtype dtype then
        (case to_numeric (first_sample sample_values) of
           Inr _ \<Rightarrow> Inr ''REAL''
         | Inl e \<Rightarrow>
             if exn_cls e = ValueError \<or> exn_cls e = TypeError \<or> exn_cls e = IndexError
             then date_string_type sample_values
             else Inl e)
      else Inr ''TEXT'')"

section \<open>Data frames and the CREATE TABLE statement\<close>

text \<open>
  A data frame has an index (its length is the number of rows) and labelled columns, each
  with a dtype and its values. \<^verbatim>\<open>df[col]\<close> selects by label: one column of that label
  is a Series; with several columns of one label pandas returns a DataFrame, on which
  \<^verbatim>\<open>.dtype\<close> raises \<^verbatim>\<open>AttributeError\<close>.
\<close>

record column =
  c_name :: string
  c_dtype :: dtype
  c_values :: "cell list"

record dataframe =
  df_index :: nat
  df_columns :: "column list"

definition getitem :: "dataframe \<Rightarrow> string \<Rightarrow> exn + column" where
  "getitem df col =
     (case filter (\<lambda>c. c_name c = col) (df_columns df) of
        [] \<Rightarrow> Inl (Exn KeyError col)
      | [c] \<Rightarrow> Inr c
      | _ \<Rightarrow> Inl (Exn AttributeError ''DataFrame object has no attribute dtype''))"

abbreviation nl :: string where
  "nl \<equiv> [CHR 0x0A]"

abbreviation dq :: string where
  "dq \<equiv> [CHR 0x22]"

fun join :: "string \<Rightarrow> string list \<Rightarrow> string" where
  "join sep [] = []"
| "join sep [x] = x"
| "join sep (x # y # ys) = x @ sep @ join sep (y # ys)"

text \<open>
  \<^verbatim>\<open>CSVToSQLiteIngester.create_table_schema\<close>. The first loop appends one column
  definition per label of \<^verbatim>\<open>df.columns\<close>; the second loop appends one clause per
  foreign key to the statement.
\<close>

fun column_defs ::
  "dataframe \<Rightarrow> string list \<Rightarrow> string option \<Rightarrow> string list \<Rightarrow> exn + string list" where
  "column_defs df [] primary_key columns = Inr columns"
| "column_defs df (col # rest) primary_key columns =
     (case getitem df col of
        Inl e \<Rightarrow> Inl e
      | Inr series \<Rightarrow>
          (case detect_sqlite_type (c_dtype series) (c_values series) of
             Inl e \<Rightarrow> Inl e
           | Inr dtype \<Rightarrow>
               (let col_def = dq @ col @ dq @ '' '' @ dtype;
                    col_def = (if Some col = primary_key
                               then col_def @ '' PRIMARY KEY NOT NULL'' else col_def)
                in column_defs df rest primary_key (columns @ [col_def]))))"

fun add_foreign_keys :: "string \<Rightarrow> (string \<times> string \<times> string) list \<Rightarrow> string" where
  "add_foreign_keys create_sql [] = create_sql"
| "add_foreign_keys create_sql ((fk_col, ref_table, ref_col) # rest) =
     add_foreign_keys
       (create_sql @ '','' @ nl @ ''    FOREIGN KEY ('' @ dq @ fk_col @ dq @ '') REFERENCES ''
          @ ref_table @ ''('' @ dq @ ref_col @ dq @ '')'')
       rest"

definition create_table_schema ::
  "dataframe \<Rightarrow> string \<Rightarrow> string option \<Rightarrow> (string \<times> string \<times> string) list option
   \<Rightarrow> exn + string" where
  "create_table_schema df table_name primary_key foreign_keys =
     (case column_defs df (map c_name (df_columns df)) primary_key [] of
        Inl e \<Rightarrow> Inl e
      | Inr columns \<Rightarrow>
          (let create_sql = ''CREATE TABLE IF NOT EXISTS '' @ table_name @ '' ('' @ nl;
               create_sql = create_sql @ join ('','' @ nl) (map (\<lambda>col. ''    '' @ col) columns);
               create_sql = (case foreign_keys of
                               None \<Rightarrow> create_sql
                             | Some [] \<Rightarrow> create_sql
                             | Some fks \<Rightarrow> add_foreign_keys create_sql fks)
           in Inr (create_sql @ nl @ '');'')))"

section \<open>The store and the world outside the script\<close>

text \<open>
  The SQLite connection is a store of tables. A table remembers the statement that created
  it, the names of its indexes and its rows, in insertion order. \<^verbatim>\<open>working\<close> is what
  the connection sees and \<^verbatim>\<open>committed\<close> what is durable; they differ only by the
  pending changes of an open transaction. Python's \<^verbatim>\<open>sqlite3\<close> opens a transaction
  before an INSERT and leaves every other statement of the script in autocommit mode, and
  the \<^verbatim>\<open>foreign_keys\<close> pragma does nothing while a transaction is open.
\<close>

record table =
  t_sql :: string
  t_indexes :: "string list"
  t_rows :: "cell list list"

type_synonym tables = "string \<Rightarrow> table option"

record store =
  committed :: tables
  working :: tables
  in_txn :: bool
  pragma_foreign_keys :: bool

text \<open>
  What the script cannot decide is a parameter: whether a path exists, what
  \<^verbatim>\<open>pd.read_csv\<close> returns for it, and whether SQLite raises on a statement. The
  verdict \<^verbatim>\<open>sql_error\<close> is given the state of the store, the text of the statement and
  the values bound to it, and answers with the exception raised, or \<^verbatim>\<open>None\<close> when the
  statement executes. The queries and prints of \<^verbatim>\<open>generate_summary\<close> are reduced to
  whether it raises.
\<close>

record env =
  path_exists :: "string \<Rightarrow> bool"
  read_csv :: "string \<Rightarrow> exn + dataframe"
  open_db :: "string \<Rightarrow> exn + tables"
  sql_error :: "store \<Rightarrow> string \<Rightarrow> cell list \<Rightarrow> exn option"
  commit_error :: "store \<Rightarrow> exn option"
  summary_error :: "store \<Rightarrow> exn option"

text \<open>The lines the script prints, each with the values it interpolates.\<close>

datatype event =
    Connected string
  | ConnectError exn
  | ConnectionClosed
  | Processing string
  | ReadRows nat
  | CreatedTable string
  | CreatingIndexes "string list"
  | IndexWarning string exn
  | RowWarning nat exn
  | RowData "(string \<times> cell) list"
  | Inserted nat string
  | ErrorLine exn
  | Success

record ingester =
  conn :: store
  ingestion_stats :: "string \<Rightarrow> nat option"
  stdout :: "event list"

section \<open>Statements\<close>

definition ddl :: "(tables \<Rightarrow> tables) \<Rightarrow> store \<Rightarrow> store" where
  "ddl f st =
     (let w = f (working st)
      in st\<lparr>working := w, committed := (if in_txn st then committed st else w)\<rparr>)"

definition pragma_effect :: "bool \<Rightarrow> store \<Rightarrow> store" where
  "pragma_effect b st = (if in_txn st then st else st\<lparr>pragma_foreign_keys := b\<rparr>)"

definition drop_effect :: "string \<Rightarrow> store \<Rightarrow> store" where
  "drop_effect table_name = ddl (\<lambda>w. w(table_name := None))"

definition create_effect :: "string \<Rightarrow> string \<Rightarrow> store \<Rightarrow> store" where
  "create_effect table_name create_sql =
     ddl (\<lambda>w. if w table_name = None
              then w(table_name \<mapsto> \<lparr>t_sql = create_sql, t_indexes = [], t_rows = []\<rparr>)
              else w)"

definition index_effect :: "string \<Rightarrow> string \<Rightarrow> store \<Rightarrow> store" where
  "index_effect table_name index_name =
     ddl (\<lambda>w. case w table_name of
                None \<Rightarrow> w
              | Some tb \<Rightarrow>
                  if index_name \<in> set (t_indexes tb) then w
                  else w(table_name \<mapsto> tb\<lparr>t_indexes := t_indexes tb @ [index_name]\<rparr>))"

definition insert_effect :: "string \<Rightarrow> cell list \<Rightarrow> store \<Rightarrow> store" where
  "insert_effect table_name row_values st =
     (case working st table_name of
        None \<Rightarrow> st
      | Some tb \<Rightarrow>
          st\<lparr>working := (working st)(table_name \<mapsto> tb\<lparr>t_rows := t_rows tb @ [row_values]\<rparr>)\<rparr>)"

definition execute :: "env \<Rightarrow> string \<Rightarrow> (store \<Rightarrow> store) \<Rightarrow> store \<Rightarrow> exn option \<times> store" where
  "execute env sql effect st =
     (case sql_error env st sql [] of
        Some e \<Rightarrow> (Some e, st)
      | None \<Rightarrow> (None, effect st))"

definition execute_insert ::
  "env \<Rightarrow> string \<Rightarrow> string \<Rightarrow> cell list \<Rightarrow> store \<Rightarrow> exn option \<times> store" where
  "execute_insert env table_name insert_sql row_values st =
     (case sql_error env st insert_sql row_values of
        Some e \<Rightarrow> (Some e, st\<lparr>in_txn := True\<rparr>)
      | None \<Rightarrow> (None, insert_effect table_name row_values (st\<lparr>in_txn := True\<rparr>)))"

definition commit :: "env \<Rightarrow> store \<Rightarrow> exn option \<times> store" where
  "commit env st =
     (case commit_error env st of
        Some e \<Rightarrow> (Some e, st)
      | None \<Rightarrow> (None, st\<lparr>committed := working st, in_txn := False\<rparr>))"

definition rollback :: "store \<Rightarrow> store" where
  "rollback st = st\<lparr>working := committed st, in_txn := False\<rparr>"

section \<open>Ingestion\<close>

text \<open>\<^verbatim>\<open>CSVToSQLiteIngester.create_indexes\<close>.\<close>

fun create_indexes :: "env \<Rightarrow> string \<Rightarrow> string list \<Rightarrow> ingester \<Rightarrow> (exn + unit) \<times> ingester" where
  "create_indexes env table_name [] s = (Inr (), s)"
| "create_indexes env table_name (col # rest) s =
     (let index_name = ''idx_'' @ table_name @ ''_'' @ col;
          sql = ''CREATE INDEX IF NOT EXISTS '' @ index_name @ '' ON '' @ table_name
                @ ''('' @ dq @ col @ dq @ '');''
      in case execute env sql (index_effect table_name index_name) (conn s) of
           (None, st) \<Rightarrow> create_indexes env table_name rest (s\<lparr>conn := st\<rparr>)
         | (Some e, st) \<Rightarrow>
             if exn_cls e = Sqlite3Error
             then create_indexes env table_name rest
                    (s\<lparr>conn := st, stdout := stdout s @ [IndexWarning index_name e]\<rparr>)
             else (Inl e, s\<lparr>conn := st\<rparr>))"

text \<open>
  The rows of a frame as \<^verbatim>\<open>df.iterrows()\<close> yields them, each with its index label
  (the position, for the range index \<^verbatim>\<open>read_csv\<close> builds).
\<close>

definition cell_at :: "column \<Rightarrow> nat \<Rightarrow> cell" where
  "cell_at c i = (if i < length (c_values c) then c_values c ! i else NaN)"

definition iterrows :: "dataframe \<Rightarrow> (nat \<times> cell list) list" where
  "iterrows df = map (\<lambda>i. (i, map (\<lambda>c. cell_at c i) (df_columns df))) [0..<df_index df]"

definition strip_columns :: "dataframe \<Rightarrow> dataframe" where
  "strip_columns df = df\<lparr>df_columns := map (\<lambda>c. c\<lparr>c_name := strip (c_name c)\<rparr>) (df_columns df)\<rparr>"

text \<open>Lines 198 to 203: datetime columns become strings, absent values of object columns \<^verbatim>\<open>None\<close>.\<close>

fun astype_str :: "cell \<Rightarrow> cell" where
  "astype_str v = StrV (py_str v)"

definition prepare_column :: "column \<Rightarrow> column" where
  "prepare_column c =
     (if is_datetime64_any_dtype (c_dtype c)
      then c\<lparr>c_dtype := Object, c_values := map astype_str (c_values c)\<rparr>
      else if c_dtype c = Object
      then c\<lparr>c_values := map (\<lambda>v. if \<not> isna v then v else PyNone) (c_values c)\<rparr>
      else c)"

text \<open>Lines 210 to 225: the loop over the rows, with its \<^verbatim>\<open>try\<close> around each insertion.\<close>

definition null_normalize :: "cell list \<Rightarrow> cell list" where
  "null_normalize row = map (\<lambda>val. if isna val then PyNone else val) row"

fun insert_rows ::
  "env \<Rightarrow> string \<Rightarrow> string \<Rightarrow> string list \<Rightarrow> (nat \<times> cell list) list \<Rightarrow> nat \<Rightarrow> ingester
   \<Rightarrow> (exn + nat) \<times> ingester" where
  "insert_rows env table_name insert_sql columns [] rows_inserted s = (Inr rows_inserted, s)"
| "insert_rows env table_name insert_sql columns ((idx, row) # rest) rows_inserted s =
     (let row_values = null_normalize row
      in case execute_insert env table_name insert_sql row_values (conn s) of
           (None, st) \<Rightarrow>
             insert_rows env table_name insert_sql columns rest (rows_inserted + 1) (s\<lparr>conn := st\<rparr>)
         | (Some e, st) \<Rightarrow>
             if exn_cls e = Sqlite3Error
             then insert_rows env table_name insert_sql columns rest rows_inserted
                    (s\<lparr>conn := st,
                       stdout := stdout s @ [RowWarning (idx + 1) e, RowData (zip columns row_values)]\<rparr>)
             else (Inl e, s\<lparr>conn := st\<rparr>))"

text \<open>Lines 183 and 184: with foreign keys off, the table is dropped if it exists.\<close>

definition drop_existing :: "env \<Rightarrow> string \<Rightarrow> ingester \<Rightarrow> (exn + unit) \<times> ingester" where
  "drop_existing env table_name s =
     (case execute env ''PRAGMA foreign_keys = OFF'' (pragma_effect False) (conn s) of
        (Some e, st) \<Rightarrow> (Inl e, s\<lparr>conn := st\<rparr>)
      | (None, st1) \<Rightarrow>
          (case execute env (''DROP TABLE IF EXISTS '' @ table_name @ '';'')
                  (drop_effect table_name) st1 of
             (Some e, st) \<Rightarrow> (Inl e, s\<lparr>conn := st\<rparr>)
           | (None, st2) \<Rightarrow> (Inr (), s\<lparr>conn := st2\<rparr>)))"

text \<open>Lines 185 to 194: foreign keys are on again, the table is created and indexed.\<close>

definition create_table ::
  "env \<Rightarrow> string \<Rightarrow> string \<Rightarrow> string list option \<Rightarrow> ingester \<Rightarrow> (exn + unit) \<times> ingester" where
  "create_table env table_name create_sql indexes s =
     (case execute env ''PRAGMA foreign_keys = ON'' (pragma_effect True) (conn s) of
        (Some e, st) \<Rightarrow> (Inl e, s\<lparr>conn := st\<rparr>)
      | (None, st3) \<Rightarrow>
          (case execute env create_sql (create_effect table_name create_sql) st3 of
             (Some e, st) \<Rightarrow> (Inl e, s\<lparr>conn := st\<rparr>)
           | (None, st4) \<Rightarrow>
               (let s1 = s\<lparr>conn := st4, stdout := stdout s @ [CreatedTable table_name]\<rparr>
                in case indexes of
                     None \<Rightarrow> (Inr (), s1)
                   | Some [] \<Rightarrow> (Inr (), s1)
                   | Some cols \<Rightarrow>
                       create_indexes env table_name cols
                         (s1\<lparr>stdout := stdout s1 @ [CreatingIndexes cols]\<rparr>))))"

text \<open>Lines 196 to 231: the rows are prepared and inserted, and the transaction committed.\<close>

definition insert_statement :: "string \<Rightarrow> string list \<Rightarrow> string" where
  "insert_statement table_name columns =
     (let placeholders = join '','' (replicate (length columns) ''?'');
          column_names = join '','' (map (\<lambda>col. dq @ col @ dq) columns)
      in ''INSERT INTO '' @ table_name @ '' ('' @ column_names @ '') VALUES (''
         @ placeholders @ '')'')"

definition load_rows :: "env \<Rightarrow> dataframe \<Rightarrow> string \<Rightarrow> ingester \<Rightarrow> (exn + nat) \<times> ingester" where
  "load_rows env df table_name s =
     (let df1 = df\<lparr>df_columns := map prepare_column (df_columns df)\<rparr>;
          columns = map c_name (df_columns df1);
          insert_sql = insert_statement table_name columns
      in case insert_rows env table_name insert_sql columns (iterrows df1) 0 s of
           (Inl e, s1) \<Rightarrow> (Inl e, s1)
         | (Inr rows_inserted, s1) \<Rightarrow>
             (case commit env (conn s1) of
                (Some e, st) \<Rightarrow> (Inl e, s1\<lparr>conn := st\<rparr>)
              | (None, st) \<Rightarrow>
                  (Inr rows_inserted,
                   s1\<lparr>conn := st,
                      stdout := stdout s1 @ [Inserted rows_inserted table_name],
                      ingestion_stats := (ingestion_stats s1)(table_name \<mapsto> rows_inserted)\<rparr>)))"

text \<open>The body of the \<^verbatim>\<open>try\<close> of \<^verbatim>\<open>ingest_csv\<close>, lines 171 to 231.\<close>

definition ingest_csv_try ::
  "env \<Rightarrow> string \<Rightarrow> string \<Rightarrow> string option \<Rightarrow> (string \<times> string \<times> string) list option
   \<Rightarrow> string list option \<Rightarrow> ingester \<Rightarrow> (exn + nat) \<times> ingester" where
  "ingest_csv_try env csv_path table_name primary_key foreign_keys indexes s =
     (case read_csv env csv_path of
        Inl e \<Rightarrow> (Inl e, s)
      | Inr df0 \<Rightarrow>
          (let s1 = s\<lparr>stdout := stdout s @ [ReadRows (df_index df0)]\<rparr>;
               df = strip_columns df0
           in case create_table_schema df table_name primary_key foreign_keys of
                Inl e \<Rightarrow> (Inl e, s1)
              | Inr create_sql \<Rightarrow>
                  (case drop_existing env table_name s1 of
                     (Inl e, s2) \<Rightarrow> (Inl e, s2)
                   | (Inr u, s2) \<Rightarrow>
                       (case create_table env table_name create_sql indexes s2 of
                          (Inl e, s3) \<Rightarrow> (Inl e, s3)
                        | (Inr u, s3) \<Rightarrow> load_rows env df table_name s3))))"

text \<open>
  \<^verbatim>\<open>CSVToSQLiteIngester.ingest_csv\<close>: the existence check, the body, and the four
  handlers in their order. The ingester is connected.
\<close>

definition ingest_csv ::
  "env \<Rightarrow> string \<Rightarrow> string \<Rightarrow> string option \<Rightarrow> (string \<times> string \<times> string) list option
   \<Rightarrow> string list option \<Rightarrow> ingester \<Rightarrow> (exn + nat) \<times> ingester" where
  "ingest_csv env csv_path table_name primary_key foreign_keys indexes s =
     (if \<not> path_exists env csv_path
      then (Inl (Exn FileNotFoundError (''CSV file not found: '' @ csv_path)), s)
      else
        (case ingest_csv_try env csv_path table_name primary_key foreign_keys indexes
                (s\<lparr>stdout := stdout s @ [Processing csv_path]\<rparr>) of
           (Inr rows_inserted, s1) \<Rightarrow> (Inr rows_inserted, s1)
         | (Inl e, s1) \<Rightarrow>
             if exn_cls e = EmptyDataError
             then (Inl (Exn ValueError (''CSV file is empty: '' @ csv_path)), s1)
             else if exn_cls e = ParserError
             then (Inl (Exn ValueError (''Error parsing CSV file '' @ csv_path @ '': '' @ exn_msg e)),
                   s1)
             else if exn_cls e = Sqlite3Error
             then (Inl (Exn Sqlite3Error
                          (''Database error while ingesting '' @ csv_path @ '': '' @ exn_msg e)),
                   s1\<lparr>conn := rollback (conn s1)\<rparr>)
             else (Inl (Exn PyException
                          (''Unexpected error while ingesting '' @ csv_path @ '': '' @ exn_msg e)),
                   s1\<lparr>conn := rollback (conn s1)\<rparr>)))"

section \<open>The run\<close>

record config =
  cfg_csv :: string
  cfg_table :: string
  cfg_primary_key :: "string option"
  cfg_foreign_keys :: "(string \<times> string \<times> string) list option"
  cfg_indexes :: "string list option"

definition ingestion_config :: "config list" where
  "ingestion_config =
     [\<lparr>cfg_csv = ''Products.csv'', cfg_table = ''Products'',
       cfg_primary_key = Some ''product_id'', cfg_foreign_keys = None,
       cfg_indexes = Some [''category'', ''brand'', ''price'']\<rparr>,
      \<lparr>cfg_csv = ''Customers.csv'', cfg_table = ''Customers'',
       cfg_primary_key = Some ''customer_id'', cfg_foreign_keys = None,
       cfg_indexes = Some [''city'', ''state'', ''country'', ''loyalty_points'']\<rparr>,
      \<lparr>cfg_csv = ''Orders.csv'', cfg_table = ''Orders'',
       cfg_primary_key = Some ''order_id'',
       cfg_foreign_keys = Some [(''customer_id'', ''Customers'', ''customer_id'')],
       cfg_indexes = Some [''customer_id'', ''order_date'', ''status'', ''total_amount'']\<rparr>,
      \<lparr>cfg_csv = ''Order_Items.csv'', cfg_table = ''Order_Items'',
       cfg_primary_key = Some ''order_item_id'',
       cfg_foreign_keys = Some [(''order_id'', ''Orders'', ''order_id''),
                                (''product_id'', ''Products'', ''product_id'')],
       cfg_indexes = Some [''order_id'', ''product_id'']\<rparr>,
      \<lparr>cfg_csv = ''Payments.csv'', cfg_table = ''Payments'',
       cfg_primary_key = Some ''payment_id'',
       cfg_foreign_keys = Some [(''order_id'', ''Orders'', ''order_id'')],
       cfg_indexes = Some [''order_id'', ''payment_method'', ''status'', ''payment_date'']\<rparr>]"

text \<open>
  \<^verbatim>\<open>CSVToSQLiteIngester.connect\<close>: an \<^verbatim>\<open>sqlite3.Error\<close> is printed and raised
  again. The result is the exception if any, the connection the ingester holds afterwards
  (none when \<^verbatim>\<open>sqlite3.connect\<close> itself failed), and the lines printed.
\<close>

definition connect :: "env \<Rightarrow> string \<Rightarrow> exn option \<times> store option \<times> event list" where
  "connect env db_path =
     (case open_db env db_path of
        Inl e \<Rightarrow> (Some e, None, if exn_cls e = Sqlite3Error then [ConnectError e] else [])
      | Inr tabs \<Rightarrow>
          (case execute env ''PRAGMA foreign_keys = ON'' (pragma_effect True)
                  \<lparr>committed = tabs, working = tabs, in_txn = False,
                   pragma_foreign_keys = False\<rparr> of
             (Some e, st) \<Rightarrow>
               (Some e, Some st, if exn_cls e = Sqlite3Error then [ConnectError e] else [])
           | (None, st) \<Rightarrow> (None, Some st, [Connected db_path])))"

text \<open>The loop of \<^verbatim>\<open>main\<close> over the configuration: the first exception leaves it.\<close>

fun ingest_all :: "env \<Rightarrow> config list \<Rightarrow> ingester \<Rightarrow> exn option \<times> ingester" where
  "ingest_all env [] s = (None, s)"
| "ingest_all env (c # rest) s =
     (case ingest_csv env (cfg_csv c) (cfg_table c) (cfg_primary_key c) (cfg_foreign_keys c)
             (cfg_indexes c) s of
        (Inl e, s1) \<Rightarrow> (Some e, s1)
      | (Inr n, s1) \<Rightarrow> ingest_all env rest s1)"

text \<open>
  \<^verbatim>\<open>main\<close>: the exit status of the process and what it printed. Each of the three
  handlers prints the error and calls \<^verbatim>\<open>sys.exit(1)\<close>; the \<^verbatim>\<open>finally\<close> closes a
  connection that was opened.
\<close>

definition main :: "env \<Rightarrow> nat \<times> event list" where
  "main env =
     (case connect env ''ecommerce.db'' of
        (Some e, None, out) \<Rightarrow> (1, out @ [ErrorLine e])
      | (Some e, Some st, out) \<Rightarrow> (1, out @ [ErrorLine e, ConnectionClosed])
      | (None, None, out) \<Rightarrow> (1, out)
      | (None, Some st, out) \<Rightarrow>
          (case ingest_all env ingestion_config
                  \<lparr>conn = st, ingestion_stats = Map.empty, stdout = out\<rparr> of
             (Some e, s) \<Rightarrow> (1, stdout s @ [ErrorLine e, ConnectionClosed])
           | (None, s) \<Rightarrow>
               (case summary_error env (conn s) of
                  Some e \<Rightarrow> (1, stdout s @ [ErrorLine e, ConnectionClosed])
                | None \<Rightarrow> (0, stdout s @ [Success, ConnectionClosed]))))"

section \<open>The decision order as the specification words it\<close>

text \<open>
  The specification's \<^verbatim>\<open>infer_storage_type\<close>: integral, floating point, boolean,
  date/time-like, and for everything else the first non-absent sample is tried as a
  number, then as a date in one of the two formats, with TEXT as the default.
\<close>

definition parses_as_number :: "cell \<Rightarrow> bool" where
  "parses_as_number v = (case to_numeric v of Inr _ \<Rightarrow> True | Inl _ \<Rightarrow> False)"

definition matches_date_format :: "cell \<Rightarrow> bool" where
  "matches_date_format v =
     (case strptime_Y_m_d (py_str v) of
        Inr _ \<Rightarrow> True
      | Inl _ \<Rightarrow> (case strptime_Y_m_d_H_M_S (py_str v) of Inr _ \<Rightarrow> True | Inl _ \<Rightarrow> False))"

definition infer_storage_type_spec :: "dtype \<Rightarrow> cell list \<Rightarrow> string" where
  "infer_storage_type_spec d column =
     (if is_integer_dtype d then ''INTEGER''
      else if is_float_dtype d then ''REAL''
      else if is_bool_dtype d then ''INTEGER''
      else if is_datetime64_any_dtype d then ''TEXT''
      else (case dropna column of
              v # _ \<Rightarrow> if parses_as_number v then ''REAL''
                       else if matches_date_format v then ''TEXT'' else ''TEXT''
            | [] \<Rightarrow> ''TEXT''))"



text \<open>
  The pieces of the statement, for stating what \<^verbatim>\<open>create_table_schema\<close> returns:
  the storage type of a column, its definition, and the clause of a foreign key.
\<close>

definition sqlite_type :: "column \<Rightarrow> string" where
  "sqlite_type c =
     (case detect_sqlite_type (c_dtype c) (c_values c) of Inr t \<Rightarrow> t | Inl e \<Rightarrow> [])"

definition column_def :: "string option \<Rightarrow> column \<Rightarrow> string" where
  "column_def primary_key c =
     dq @ c_name c @ dq @ '' '' @ sqlite_type c
     @ (if Some (c_name c) = primary_key then '' PRIMARY KEY NOT NULL'' else [])"

definition fk_clause :: "string \<times> string \<times> string \<Rightarrow> string" where
  "fk_clause fk =
     (case fk of (fk_col, ref_table, ref_col) \<Rightarrow>
        '','' @ nl @ ''    FOREIGN KEY ('' @ dq @ fk_col @ dq @ '') REFERENCES ''
        @ ref_table @ ''('' @ dq @ ref_col @ dq @ '')'')"

definition fk_list :: "(string \<times> string \<times> string) list option \<Rightarrow> (string \<times> string \<times> string) list" where
  "fk_list foreign_keys = (case foreign_keys of None \<Rightarrow> [] | Some fks \<Rightarrow> fks)"

section \<open>What a run stores and prints\<close>

text \<open>
  The notions in which the properties of \<^verbatim>\<open>ingest_csv\<close> are stated. The rows of
  the source are offered to the store one after the other; \<^verbatim>\<open>row_verdicts\<close> lists
  what the store answers to each INSERT, every accepted row being stored before the next
  one is offered, and \<^verbatim>\<open>rows_store\<close> is the store after the last row.
\<close>

fun row_verdicts :: "env \<Rightarrow> string \<Rightarrow> string \<Rightarrow> cell list list \<Rightarrow> store \<Rightarrow> exn option list" where
  "row_verdicts env table_name insert_sql [] st = []"
| "row_verdicts env table_name insert_sql (row # rest) st =
     sql_error env st insert_sql (null_normalize row)
     # row_verdicts env table_name insert_sql rest
         (snd (execute_insert env table_name insert_sql (null_normalize row) st))"






definition append_rows :: "string \<Rightarrow> cell list list \<Rightarrow> tables \<Rightarrow> tables" where
  "append_rows table_name rs w =
     (case w table_name of
        None \<Rightarrow> w
      | Some tb \<Rightarrow> w(table_name \<mapsto> tb\<lparr>t_rows := t_rows tb @ rs\<rparr>))"

text \<open>
  The frame \<^verbatim>\<open>ingest_csv\<close> iterates over (labels stripped, columns prepared), its
  labels, and the verdicts on its rows from a given state of the store.
\<close>

definition prepared :: "dataframe \<Rightarrow> dataframe" where
  "prepared df0 =
     (strip_columns df0)\<lparr>df_columns := map prepare_column (df_columns (strip_columns df0))\<rparr>"

definition bound_columns :: "dataframe \<Rightarrow> string list" where
  "bound_columns df0 = map c_name (df_columns (prepared df0))"

definition verdicts :: "env \<Rightarrow> string \<Rightarrow> dataframe \<Rightarrow> store \<Rightarrow> exn option list" where
  "verdicts env table_name df0 st =
     row_verdicts env table_name (insert_statement table_name (bound_columns df0))
       (map snd (iterrows (prepared df0))) st"


definition index_name :: "string \<Rightarrow> string \<Rightarrow> string" where
  "index_name table_name col = ''idx_'' @ table_name @ ''_'' @ col"







section \<open>Concrete inputs\<close>

text \<open>
  A source of three rows whose \<^verbatim>\<open>price\<close> column holds \<^verbatim>\<open>"9.99"\<close>,
  \<^verbatim>\<open>"bad"\<close> and an empty field, as \<^verbatim>\<open>pd.read_csv\<close> returns it: the identifiers
  are integers, the other two columns have object dtype, and the empty field is NaN.
\<close>

definition items_frame :: dataframe where
  "items_frame =
     \<lparr>df_index = 3,
      df_columns =
        [\<lparr>c_name = ''id'', c_dtype = Int64, c_values = [IntV 1, IntV 2, IntV 3]\<rparr>,
         \<lparr>c_name = ''name'', c_dtype = Object, c_values = [StrV ''A'', StrV ''B'', StrV ''C'']\<rparr>,
         \<lparr>c_name = ''price'', c_dtype = Object,
          c_values = [StrV ''9.99'', StrV ''bad'', NaN]\<rparr>]\<rparr>"

text \<open>A frame in which two columns carry the same label.\<close>

definition twin_frame :: dataframe where
  "twin_frame =
     \<lparr>df_index = 1,
      df_columns =
        [\<lparr>c_name = ''a'', c_dtype = Int64, c_values = [IntV 1]\<rparr>,
         \<lparr>c_name = ''a'', c_dtype = Int64, c_values = [IntV 2]\<rparr>]\<rparr>"

text \<open>
  SQLite on a table the script creates. The declared type of a column is an affinity: a
  value that does not convert is stored as it is, and no INSERT fails for its type. What
  the generated schema does enforce is the primary key, here the column at position
  \<^verbatim>\<open>k\<close>: it is not NULL and it is unique. Statements without bound values execute.
\<close>

definition key_verdict :: "string \<Rightarrow> nat \<Rightarrow> store \<Rightarrow> string \<Rightarrow> cell list \<Rightarrow> exn option" where
  "key_verdict table_name k st sql params =
     (case params of
        [] \<Rightarrow> None
      | _ \<Rightarrow>
          (case working st table_name of
             None \<Rightarrow> Some (Exn Sqlite3Error (''no such table: '' @ table_name))
           | Some tb \<Rightarrow>
               if take 1 (drop k params) = [PyNone]
               then Some (Exn Sqlite3Error ''NOT NULL constraint failed'')
               else if take 1 (drop k params) \<in> set (map (\<lambda>r. take 1 (drop k r)) (t_rows tb))
               then Some (Exn Sqlite3Error ''UNIQUE constraint failed'')
               else None))"

definition items_env :: env where
  "items_env =
     \<lparr>path_exists = (\<lambda>p. p = ''items.csv''),
      read_csv = (\<lambda>p. Inr items_frame),
      open_db = (\<lambda>p. Inr Map.empty),
      sql_error = key_verdict ''Items'' 0,
      commit_error = (\<lambda>st. None),
      summary_error = (\<lambda>st. None)\<rparr>"

definition empty_store :: store where
  "empty_store =
     \<lparr>committed = Map.empty, working = Map.empty, in_txn = False, pragma_foreign_keys = True\<rparr>"

definition fresh :: ingester where
  "fresh = \<lparr>conn = empty_store, ingestion_stats = Map.empty, stdout = []\<rparr>"



section \<open>Properties of the type inference\<close>

subsection \<open>What the library calls raise\<close>

lemma to_numeric_raises:
  "to_numeric v = Inl e \<Longrightarrow> exn_cls e = ValueError \<or> exn_cls e = TypeError"
  by (cases v) (auto split: if_splits)

lemma strptime_Y_m_d_raises: "strptime_Y_m_d s = Inl e \<Longrightarrow> exn_cls e = ValueError"
  by (auto simp: strptime_Y_m_d_def no_match_def
           split: option.splits list.splits if_splits prod.splits)

lemma strptime_Y_m_d_H_M_S_raises: "strptime_Y_m_d_H_M_S s = Inl e \<Longrightarrow> exn_cls e = ValueError"
  by (auto simp: strptime_Y_m_d_H_M_S_def no_match_def
           split: option.splits list.splits if_splits prod.splits)

lemma date_string_type_TEXT: "date_string_type xs = Inr ''TEXT''"
  unfolding date_string_type_def Let_def
  by (auto split: list.splits sum.splits
           dest: strptime_Y_m_d_raises strptime_Y_m_d_H_M_S_raises)

lemma detect_object:
  "is_object_dtype d \<Longrightarrow>
   detect_sqlite_type d xs =
     Inr (case to_numeric (first_sample xs) of Inr _ \<Rightarrow> ''REAL'' | Inl _ \<Rightarrow> ''TEXT'')"
  by (cases d)
     (auto simp: detect_sqlite_type_def date_string_type_TEXT split: sum.splits
           dest: to_numeric_raises)

lemma zero_numeric: "numeric_string ''0''"
  by (simp add: numeric_string_def decimal_literal_def strip_def is_space_def drop_sign_def
                is_digit_def Let_def)

lemma first_sample_empty: "dropna xs = [] \<Longrightarrow> first_sample xs = StrV ''0''"
  by (simp add: first_sample_def)

lemma first_sample_Cons: "dropna xs = v # vs \<Longrightarrow> first_sample xs = v"
  by (simp add: first_sample_def)

subsection \<open>Integer literals are numeric\<close>








subsection \<open>The claims about \<^verbatim>\<open>detect_sqlite_type\<close>\<close>

text \<open>
  C10. A column of object dtype with no non-absent value at all gets REAL: with nothing
  to sample the function hands the literal \<^verbatim>\<open>"0"\<close> to \<^verbatim>\<open>pd.to_numeric\<close>,
  which parses, so the TEXT default is never reached.
\<close>

theorem detect_sqlite_type_all_absent_object:
  assumes "is_object_dtype d" and "dropna xs = []"
  shows "detect_sqlite_type d xs = Inr ''REAL''"
  using assms by (simp add: detect_object first_sample_empty zero_numeric)

theorem detect_sqlite_type_all_absent_object_witness:
  "detect_sqlite_type Object [NaN, PyNone, NaN] = Inr ''REAL''"
  using detect_sqlite_type_all_absent_object [of Object "[NaN, PyNone, NaN]"]
  by (simp add: dropna_def)

text \<open>
  C1, as the claim states it, fails: the specification's decision order ends in TEXT for
  a free-text column that offers no sample to parse, and the function answers REAL there.
\<close>

theorem detect_sqlite_type_differs_from_spec_order:
  "detect_sqlite_type Object [NaN] \<noteq> Inr (infer_storage_type_spec Object [NaN])"
  by (simp add: detect_object first_sample_empty zero_numeric infer_storage_type_spec_def
                dropna_def)

text \<open>
  C1, amended. \<^verbatim>\<open>detect_sqlite_type\<close> never raises and returns one of INTEGER, REAL,
  TEXT. For a column of integral, float, boolean or datetime dtype, and for a column of
  object dtype with at least one non-absent value, the result is the one of the
  specification's first-match decision order. A column of object dtype with no non-absent
  value gets REAL, and a column of any other dtype gets TEXT whatever its values are.
\<close>

theorem detect_sqlite_type_decision_order:
  "detect_sqlite_type d xs \<in> {Inr ''INTEGER'', Inr ''REAL'', Inr ''TEXT''} \<and>
   detect_sqlite_type d xs =
     Inr (if is_object_dtype d \<and> dropna xs = [] then ''REAL''
          else if is_object_dtype d \<or> is_integer_dtype d \<or> is_float_dtype d
                  \<or> is_bool_dtype d \<or> is_datetime64_any_dtype d
          then infer_storage_type_spec d xs
          else ''TEXT'')"
proof (cases "is_object_dtype d")
  case True
  then have d: "d = Object" by (cases d) simp_all
  show ?thesis
  proof (cases "dropna xs")
    case Nil
    with True show ?thesis
      by (simp add: detect_object first_sample_empty zero_numeric)
  next
    case (Cons v vs)
    then show ?thesis
      using True d
      by (auto simp: detect_object first_sample_Cons infer_storage_type_spec_def
                     parses_as_number_def split: sum.splits)
  qed
next
  case False
  then show ?thesis
    by (cases d) (simp_all add: detect_sqlite_type_def infer_storage_type_spec_def)
qed

theorem detect_sqlite_type_decision_order_witness:
  "detect_sqlite_type Int64 [IntV 1, IntV 2] = Inr ''INTEGER''
   \<and> detect_sqlite_type Float64 [FloatV ''9.99'', NaN] = Inr ''REAL''
   \<and> detect_sqlite_type Bool [BoolV True] = Inr ''INTEGER''
   \<and> detect_sqlite_type Datetime64 [TimestampV ''2024-01-15 00:00:00''] = Inr ''TEXT''
   \<and> detect_sqlite_type Object [NaN, StrV ''9.99'', StrV ''bad''] = Inr ''REAL''
   \<and> detect_sqlite_type Object [StrV ''bad'', StrV ''9.99''] = Inr ''TEXT''
   \<and> detect_sqlite_type Object [PyNone] = Inr ''REAL''
   \<and> detect_sqlite_type Category [StrV ''9.99''] = Inr ''TEXT''"
proof -
  have n1: "parses_as_number (StrV ''9.99'')" by code_simp
  have n2: "\<not> parses_as_number (StrV ''bad'')" by code_simp
  show ?thesis
    using detect_sqlite_type_decision_order [of Int64 "[IntV 1, IntV 2]"]
      detect_sqlite_type_decision_order [of Float64 "[FloatV ''9.99'', NaN]"]
      detect_sqlite_type_decision_order [of Bool "[BoolV True]"]
      detect_sqlite_type_decision_order [of Datetime64 "[TimestampV ''2024-01-15 00:00:00'']"]
      detect_sqlite_type_decision_order [of Object "[NaN, StrV ''9.99'', StrV ''bad'']"]
      detect_sqlite_type_decision_order [of Object "[StrV ''bad'', StrV ''9.99'']"]
      detect_sqlite_type_decision_order [of Object "[PyNone]"]
      detect_sqlite_type_decision_order [of Category "[StrV ''9.99'']"]
    by (simp add: infer_storage_type_spec_def dropna_def n1 n2)
qed






section \<open>Properties of the schema generation\<close>

lemma detect_sqlite_type_column:
  "detect_sqlite_type (c_dtype c) (c_values c) = Inr (sqlite_type c)"
proof (cases "is_object_dtype (c_dtype c)")
  case True
  then show ?thesis by (simp add: sqlite_type_def detect_object)
next
  case False
  then show ?thesis
    by (cases "c_dtype c") (simp_all add: sqlite_type_def detect_sqlite_type_def)
qed

lemma filter_name_distinct:
  "distinct (map c_name cs) \<Longrightarrow> c \<in> set cs \<Longrightarrow> filter (\<lambda>x. c_name x = c_name c) cs = [c]"
proof (induction cs)
  case Nil
  then show ?case by simp
next
  case (Cons a cs)
  show ?case
  proof (cases "a = c")
    case True
    with Cons.prems have "c_name c \<notin> c_name ` set cs" by simp
    then have "\<forall>x\<in>set cs. c_name x \<noteq> c_name c" by (metis imageI)
    then have "filter (\<lambda>x. c_name x = c_name c) cs = []"
      by (simp add: filter_empty_conv)
    with True show ?thesis by simp
  next
    case False
    with Cons.prems have "c \<in> set cs" "c_name a \<noteq> c_name c" by auto
    with Cons show ?thesis by simp
  qed
qed

lemma getitem_distinct:
  "distinct (map c_name (df_columns df)) \<Longrightarrow> c \<in> set (df_columns df)
   \<Longrightarrow> getitem df (c_name c) = Inr c"
  by (simp add: getitem_def filter_name_distinct)

lemma column_defs_closed:
  assumes "distinct (map c_name (df_columns df))"
  shows "set cs \<subseteq> set (df_columns df) \<Longrightarrow>
         column_defs df (map c_name cs) pk acc = Inr (acc @ map (column_def pk) cs)"
proof (induction cs arbitrary: acc)
  case Nil
  then show ?case by simp
next
  case (Cons c cs)
  then have c: "c \<in> set (df_columns df)" and cs: "set cs \<subseteq> set (df_columns df)"
    by auto
  show ?case
    using Cons.IH [OF cs]
    by (simp add: getitem_distinct [OF assms c] detect_sqlite_type_column column_def_def Let_def)
qed

lemma add_foreign_keys_closed:
  "add_foreign_keys sql fks = sql @ concat (map fk_clause fks)"
  by (induction sql fks rule: add_foreign_keys.induct) (simp_all add: fk_clause_def)

lemma create_table_schema_closed:
  assumes "distinct (map c_name (df_columns df))"
  shows "create_table_schema df table_name primary_key foreign_keys =
     Inr (''CREATE TABLE IF NOT EXISTS '' @ table_name @ '' ('' @ nl
          @ join ('','' @ nl) (map (\<lambda>c. ''    '' @ column_def primary_key c) (df_columns df))
          @ concat (map fk_clause (fk_list foreign_keys))
          @ nl @ '');'')"
proof -
  have cols: "column_defs df (map c_name (df_columns df)) primary_key []
              = Inr (map (column_def primary_key) (df_columns df))"
    using column_defs_closed [OF assms, of "df_columns df" primary_key "[]"] by simp
  have fks: "(case foreign_keys of None \<Rightarrow> sql | Some [] \<Rightarrow> sql
              | Some fks \<Rightarrow> add_foreign_keys sql fks)
             = sql @ concat (map fk_clause (fk_list foreign_keys))" for sql
    by (cases foreign_keys) (auto simp: fk_list_def add_foreign_keys_closed split: list.splits)
  show ?thesis
    unfolding create_table_schema_def cols Let_def
    by (simp add: fks o_def del: add_foreign_keys.simps)
qed

text \<open>
  C6, as the claim states it, fails: when two columns of the source table carry the same
  label, \<^verbatim>\<open>df[col]\<close> is a frame, not a column, and \<^verbatim>\<open>create_table_schema\<close> raises
  \<^verbatim>\<open>AttributeError\<close> instead of returning a statement.
\<close>

theorem create_table_schema_repeated_label:
  "create_table_schema twin_frame ''T'' None None
   = Inl (Exn AttributeError ''DataFrame object has no attribute dtype'')"
  by (simp add: create_table_schema_def twin_frame_def getitem_def)

text \<open>
  C6, amended. For every source table whose column labels are pairwise distinct, every
  optional primary-key column name and every optional list of foreign-key triples,
  \<^verbatim>\<open>create_table_schema\<close> returns a \<^verbatim>\<open>CREATE TABLE IF NOT EXISTS\<close> statement: the
  column definitions stand in the source table's column order, one per line, the
  definition of the primary-key column ends in \<^verbatim>\<open>PRIMARY KEY NOT NULL\<close>, and one
  \<^verbatim>\<open>FOREIGN KEY\<close> clause per triple follows the columns, in the order of the triples.
\<close>

theorem create_table_schema_statement:
  assumes "distinct (map c_name (df_columns df))"
  shows "create_table_schema df table_name primary_key foreign_keys =
     Inr (''CREATE TABLE IF NOT EXISTS '' @ table_name @ '' ('' @ nl
          @ join ('','' @ nl) (map (\<lambda>c. ''    '' @ column_def primary_key c) (df_columns df))
          @ concat (map fk_clause (fk_list foreign_keys))
          @ nl @ '');'')"
  using assms by (rule create_table_schema_closed)

theorem create_table_schema_statement_witness:
  "create_table_schema items_frame ''Items'' (Some ''id'')
     (Some [(''name'', ''Names'', ''n''), (''id'', ''Ids'', ''i'')])
   = Inr (''CREATE TABLE IF NOT EXISTS Items ('' @ nl
          @ ''    '' @ dq @ ''id'' @ dq @ '' INTEGER PRIMARY KEY NOT NULL,'' @ nl
          @ ''    '' @ dq @ ''name'' @ dq @ '' TEXT,'' @ nl
          @ ''    '' @ dq @ ''price'' @ dq @ '' REAL,'' @ nl
          @ ''    FOREIGN KEY ('' @ dq @ ''name'' @ dq @ '') REFERENCES Names(''
          @ dq @ ''n'' @ dq @ ''),'' @ nl
          @ ''    FOREIGN KEY ('' @ dq @ ''id'' @ dq @ '') REFERENCES Ids(''
          @ dq @ ''i'' @ dq @ '')'' @ nl @ '');'')"
proof -
  have t1: "sqlite_type \<lparr>c_name = ''id'', c_dtype = Int64, c_values = [IntV 1, IntV 2, IntV 3]\<rparr>
            = ''INTEGER''"
    by (simp add: sqlite_type_def detect_sqlite_type_def)
  have t2: "sqlite_type \<lparr>c_name = ''name'', c_dtype = Object,
                         c_values = [StrV ''A'', StrV ''B'', StrV ''C'']\<rparr> = ''TEXT''"
    by code_simp
  have t3: "sqlite_type \<lparr>c_name = ''price'', c_dtype = Object,
                         c_values = [StrV ''9.99'', StrV ''bad'', NaN]\<rparr> = ''REAL''"
    by code_simp
  show ?thesis
    using create_table_schema_statement
            [of items_frame "''Items''" "Some ''id''"
                "Some [(''name'', ''Names'', ''n''), (''id'', ''Ids'', ''i'')]"]
    by (simp add: items_frame_def column_def_def fk_clause_def fk_list_def t1 t2 t3)
qed

section \<open>Properties of the run\<close>

lemma ingest_csv_missing:
  "\<not> path_exists env csv_path \<Longrightarrow>
   ingest_csv env csv_path table_name primary_key foreign_keys indexes s
   = (Inl (Exn FileNotFoundError (''CSV file not found: '' @ csv_path)), s)"
  by (simp add: ingest_csv_def)

lemma ingest_all_missing:
  "\<exists>c\<in>set cfgs. \<not> path_exists env (cfg_csv c) \<Longrightarrow> fst (ingest_all env cfgs s) \<noteq> None"
proof (induction cfgs arbitrary: s)
  case Nil
  then show ?case by simp
next
  case (Cons c cfgs)
  show ?case
  proof (cases "path_exists env (cfg_csv c)")
    case False
    then show ?thesis by (simp add: ingest_csv_missing)
  next
    case True
    with Cons.prems have "\<exists>c\<in>set cfgs. \<not> path_exists env (cfg_csv c)" by auto
    then have "fst (ingest_all env cfgs s') \<noteq> None" for s'
      by (rule Cons.IH)
    then show ?thesis
      by (auto split: prod.splits sum.splits)
  qed
qed

lemma main_exit_status:
  "fst (ingest_all env ingestion_config \<lparr>conn = st, ingestion_stats = Map.empty, stdout = out\<rparr>)
     \<noteq> None
   \<Longrightarrow> connect env ''ecommerce.db'' = (None, Some st, out) \<Longrightarrow> fst (main env) = 1"
  by (auto simp: main_def split: prod.splits option.splits)

text \<open>
  C9. When the source path of an entry does not exist, \<^verbatim>\<open>ingest_csv\<close> raises
  \<^verbatim>\<open>FileNotFoundError\<close> and leaves the ingester as it was: nothing is dropped, created,
  inserted or printed for that entry. And when the path of some entry of the ingestion
  plan does not exist, the run of \<^verbatim>\<open>main\<close> ends with exit status 1.
\<close>

theorem missing_source_is_fatal:
  "(\<not> path_exists env csv_path \<longrightarrow>
      ingest_csv env csv_path table_name primary_key foreign_keys indexes s
      = (Inl (Exn FileNotFoundError (''CSV file not found: '' @ csv_path)), s))
   \<and> ((\<exists>c\<in>set ingestion_config. \<not> path_exists env (cfg_csv c)) \<longrightarrow> fst (main env) = 1)"
proof (intro conjI impI)
  assume "\<not> path_exists env csv_path"
  then show "ingest_csv env csv_path table_name primary_key foreign_keys indexes s
             = (Inl (Exn FileNotFoundError (''CSV file not found: '' @ csv_path)), s)"
    by (rule ingest_csv_missing)
next
  assume missing: "\<exists>c\<in>set ingestion_config. \<not> path_exists env (cfg_csv c)"
  obtain err c out where con: "connect env ''ecommerce.db'' = (err, c, out)"
    by (cases "connect env ''ecommerce.db''") auto
  show "fst (main env) = 1"
  proof (cases "err = None \<and> c \<noteq> None")
    case True
    then obtain st where "connect env ''ecommerce.db'' = (None, Some st, out)"
      using con by auto
    then show ?thesis
      using ingest_all_missing [OF missing] by (rule main_exit_status [rotated])
  next
    case False
    then show ?thesis
      using con by (auto simp: main_def split: option.splits)
  qed
qed

theorem missing_source_is_fatal_witness:
  "ingest_csv items_env ''Orders.csv'' ''Orders'' (Some ''order_id'')
     (Some [(''customer_id'', ''Customers'', ''customer_id'')]) None fresh
   = (Inl (Exn FileNotFoundError ''CSV file not found: Orders.csv''), fresh)
   \<and> fst (main items_env) = 1"
  using missing_source_is_fatal
          [of items_env "''Orders.csv''" "''Orders''" "Some ''order_id''"
              "Some [(''customer_id'', ''Customers'', ''customer_id'')]" None fresh]
  by (simp add: items_env_def ingestion_config_def)

section \<open>Properties of the row loop\<close>

lemma length_row_verdicts [simp]: "length (row_verdicts env t sql rows st) = length rows"
  by (induction rows arbitrary: st) simp_all




lemma append_rows_Nil [simp]: "append_rows t [] w = w"
  by (auto simp: append_rows_def split: option.splits)


subsection \<open>A run on which every statement but an INSERT executes\<close>















lemma length_iterrows [simp]: "length (iterrows df) = df_index df"
  by (simp add: iterrows_def)

lemma length_verdicts [simp]: "length (verdicts env t df0 st) = df_index df0"
  by (simp add: verdicts_def prepared_def strip_columns_def)













end
